theory Spec2Isabelle
  imports Main "HOL-Library.Word"
begin

unbundle bit_operations_syntax

section \<open>Guest values\<close>

text \<open>
  The guest runtime is Python. The values the scripts at hand build and exchange are
  \<open>None\<close>, booleans, integers (unbounded), floats, strings and lists. A float is kept as its
  IEEE 754 binary64 bit pattern, which is all that pickling and equality need; no float
  arithmetic is defined here.
\<close>

type_synonym byte = "8 word"
type_synonym bytes = "byte list"

datatype pyval =
    PNone
  | PBool bool
  | PInt int
  | PFloat "64 word"
  | PStr string
  | PList "pyval list"

text \<open>A raised exception: the name of its class and \<open>str\<close> of the exception.\<close>

datatype pyexc = PyExc (kind: string) (message: string)

subsection \<open>Equality of guest values\<close>

definition float_exponent :: "64 word \<Rightarrow> int" where
  "float_exponent w = uint (take_bit 11 (drop_bit 52 w))"

definition float_fraction :: "64 word \<Rightarrow> int" where
  "float_fraction w = uint (take_bit 52 w)"

definition float_is_nan :: "64 word \<Rightarrow> bool" where
  "float_is_nan w = (float_exponent w = 2047 \<and> float_fraction w \<noteq> 0)"

definition float_is_inf :: "64 word \<Rightarrow> bool" where
  "float_is_inf w = (float_exponent w = 2047 \<and> float_fraction w = 0)"

definition float_is_zero :: "64 word \<Rightarrow> bool" where
  "float_is_zero w = (float_exponent w = 0 \<and> float_fraction w = 0)"

text \<open>
  A finite float is \<open>float_significand w * 2 ^ float_power w\<close>, the significand signed.
\<close>

definition float_significand :: "64 word \<Rightarrow> int" where
  "float_significand w =
     (let m = (if float_exponent w = 0 then float_fraction w
               else 2 ^ 52 + float_fraction w)
      in if bit w 63 then - m else m)"

definition float_power :: "64 word \<Rightarrow> int" where
  "float_power w = (if float_exponent w = 0 then - 1074 else float_exponent w - 1075)"

text \<open>\<open>a == b\<close> on two floats: a NaN equals nothing, the two zeros are equal.\<close>

definition float_eq :: "64 word \<Rightarrow> 64 word \<Rightarrow> bool" where
  "float_eq a b =
     (if float_is_nan a \<or> float_is_nan b then False
      else if float_is_zero a \<and> float_is_zero b then True
      else a = b)"

text \<open>\<open>i == f\<close> on an integer and a float: the comparison is exact.\<close>

definition int_eq_float :: "int \<Rightarrow> 64 word \<Rightarrow> bool" where
  "int_eq_float i w =
     (if float_is_nan w \<or> float_is_inf w then False
      else if 0 \<le> float_power w then i = float_significand w * 2 ^ nat (float_power w)
      else i * 2 ^ nat (- float_power w) = float_significand w)"

datatype num = NInt int | NFloat "64 word"

fun num_of :: "pyval \<Rightarrow> num option" where
  "num_of (PBool b) = Some (NInt (if b then 1 else 0))"
| "num_of (PInt i) = Some (NInt i)"
| "num_of (PFloat w) = Some (NFloat w)"
| "num_of _ = None"

fun num_eq :: "num \<Rightarrow> num \<Rightarrow> bool" where
  "num_eq (NInt i) (NInt j) = (i = j)"
| "num_eq (NInt i) (NFloat w) = int_eq_float i w"
| "num_eq (NFloat w) (NInt i) = int_eq_float i w"
| "num_eq (NFloat v) (NFloat w) = float_eq v w"

text \<open>
  \<open>a == b\<close> for two values that share no object, as a value and its reconstruction from
  a pickle are: numbers compare by value across \<open>bool\<close>, \<open>int\<close> and \<open>float\<close>, strings by
  their characters, lists by length and elementwise, and values of unrelated types are
  unequal.
\<close>

fun py_eq :: "pyval \<Rightarrow> pyval \<Rightarrow> bool"
  and py_eq_list :: "pyval list \<Rightarrow> pyval list \<Rightarrow> bool" where
  "py_eq PNone PNone = True"
| "py_eq (PStr a) (PStr b) = (a = b)"
| "py_eq (PList a) (PList b) = py_eq_list a b"
| "py_eq a b = (case (num_of a, num_of b) of (Some x, Some y) \<Rightarrow> num_eq x y | _ \<Rightarrow> False)"
| "py_eq_list [] [] = True"
| "py_eq_list (x # xs) (y # ys) = (py_eq x y \<and> py_eq_list xs ys)"
| "py_eq_list _ _ = False"


section \<open>Dictionaries\<close>

text \<open>
  A Python \<open>dict\<close> is an association list in insertion order; \<open>is_dict\<close> says that no key
  occurs twice, which holds of every \<open>dict\<close>. \<open>dict_set d k v\<close> is \<open>d[k] = v\<close>: an existing
  key keeps its place, a new one goes last.
\<close>

definition is_dict :: "('k \<times> 'v) list \<Rightarrow> bool" where
  "is_dict d = distinct (map fst d)"

fun dict_set :: "('k \<times> 'v) list \<Rightarrow> 'k \<Rightarrow> 'v \<Rightarrow> ('k \<times> 'v) list" where
  "dict_set [] k v = [(k, v)]"
| "dict_set ((k', v') # d) k v =
     (if k' = k then (k', v) # d else (k', v') # dict_set d k v)"


section \<open>The object codec (Python/Code/pickle\_serialize.py, pickle\_deserialize.py)\<close>


text \<open>
  The loop of lines 13 and 14 of \<open>deserialize\<close>, over the items of the input dictionary
  that are still to come, with \<open>result\<close> as built so far.
\<close>

fun deserialize_loop ::
  "(bytes \<Rightarrow> 'e + 'v) \<Rightarrow> (string \<times> bytes) list \<Rightarrow> (string \<times> 'v) list \<Rightarrow> 'e + (string \<times> 'v) list" where
  "deserialize_loop loads [] result = Inr result"
| "deserialize_loop loads ((source, data) # items) result =
     (case loads data of
        Inl e \<Rightarrow> Inl e
      | Inr v \<Rightarrow> deserialize_loop loads items (dict_set result source v))"

definition deserialize ::
  "(bytes \<Rightarrow> 'e + 'v) \<Rightarrow> (string \<times> bytes) list \<Rightarrow> 'e + (string \<times> 'v) list" where
  "deserialize loads source_msg_map = deserialize_loop loads source_msg_map []"

section \<open>The pickle format on scalar values\<close>

text \<open>
  To evaluate the codec on concrete payloads its two parameters are instantiated with
  \<open>pickle.dumps\<close> and \<open>pickle.loads\<close> as CPython behaves (protocol 4, the default of
  CPython 3.8 to 3.13) on a fragment: the scalars \<open>None\<close>, \<open>True\<close>, \<open>False\<close>, the integers
  of 32 bits and the floats. \<open>OutsideFragment\<close> is not a Python exception: it marks an
  opcode or a value that this fragment leaves out, about which nothing is said here.
  The other errors are the classes of the exceptions \<open>pickle.loads\<close> raises.
\<close>

datatype pickle_error =
    EOFError
  | UnpicklingError
  | ValueError
  | OverflowError
  | OutsideFragment

text \<open>Unsigned little-endian numbers, and the low \<open>n\<close> bytes of an integer.\<close>

fun le_int :: "bytes \<Rightarrow> int" where
  "le_int [] = 0"
| "le_int (b # bs) = uint b + 256 * le_int bs"


definition signed32 :: "int \<Rightarrow> int" where
  "signed32 i = (if 2 ^ 31 \<le> i then i - 2 ^ 32 else i)"

abbreviation op_STOP :: byte where "op_STOP \<equiv> 0x2E"
abbreviation op_NONE :: byte where "op_NONE \<equiv> 0x4E"
abbreviation op_NEWTRUE :: byte where "op_NEWTRUE \<equiv> 0x88"
abbreviation op_NEWFALSE :: byte where "op_NEWFALSE \<equiv> 0x89"
abbreviation op_BININT1 :: byte where "op_BININT1 \<equiv> 0x4B"
abbreviation op_BININT2 :: byte where "op_BININT2 \<equiv> 0x4D"
abbreviation op_BININT :: byte where "op_BININT \<equiv> 0x4A"
abbreviation op_BINFLOAT :: byte where "op_BINFLOAT \<equiv> 0x47"
abbreviation op_PROTO :: byte where "op_PROTO \<equiv> 0x80"
abbreviation op_FRAME :: byte where "op_FRAME \<equiv> 0x95"

text \<open>
  The unpickler is a stack machine. Running out of input where an opcode is expected is
  \<open>EOFError\<close>; a truncated argument, a frame longer than the data and \<open>STOP\<close> on an
  empty stack are \<open>UnpicklingError\<close>; a protocol above 5 is \<open>ValueError\<close>; a frame length
  of \<open>2 ^ 63\<close> or more is \<open>OverflowError\<close>. \<open>STOP\<close> returns the top of the stack and
  ignores what follows it.
\<close>

fun unpickle :: "bytes \<Rightarrow> pyval list \<Rightarrow> pickle_error + pyval" where
  "unpickle [] stack = Inl EOFError"
| "unpickle (opc # rest) stack =
     (if opc = op_STOP then (case stack of [] \<Rightarrow> Inl UnpicklingError | v # _ \<Rightarrow> Inr v)
      else if opc = op_NONE then unpickle rest (PNone # stack)
      else if opc = op_NEWTRUE then unpickle rest (PBool True # stack)
      else if opc = op_NEWFALSE then unpickle rest (PBool False # stack)
      else if opc = op_BININT1 then
        (if length rest < 1 then Inl UnpicklingError
         else unpickle (drop 1 rest) (PInt (le_int (take 1 rest)) # stack))
      else if opc = op_BININT2 then
        (if length rest < 2 then Inl UnpicklingError
         else unpickle (drop 2 rest) (PInt (le_int (take 2 rest)) # stack))
      else if opc = op_BININT then
        (if length rest < 4 then Inl UnpicklingError
         else unpickle (drop 4 rest) (PInt (signed32 (le_int (take 4 rest))) # stack))
      else if opc = op_BINFLOAT then
        (if length rest < 8 then Inl UnpicklingError
         else unpickle (drop 8 rest) (PFloat (word_of_int (le_int (rev (take 8 rest)))) # stack))
      else if opc = op_PROTO then
        (if length rest < 1 then Inl UnpicklingError
         else if 5 < le_int (take 1 rest) then Inl ValueError
         else unpickle (drop 1 rest) stack)
      else if opc = op_FRAME then
        (if length rest < 8 then Inl UnpicklingError
         else if 2 ^ 63 \<le> le_int (take 8 rest) then Inl OverflowError
         else if int (length (drop 8 rest)) < le_int (take 8 rest) then Inl UnpicklingError
         else unpickle (drop 8 rest) stack)
      else Inl OutsideFragment)"

definition pickle_loads :: "bytes \<Rightarrow> pickle_error + pyval" where
  "pickle_loads data = unpickle data []"




section \<open>The iteration rate limiter stage (examples/iteration\_rate\_limiter.py)\<close>

text \<open>
  The script keeps one module-level variable, \<open>did_show_msg\<close>, and its \<open>step\<close> prints
  two lines the first time it runs, sleeps one second and returns its argument. The
  module state is a record: the flag, the lines written to standard output so far (in
  order) and the number of seconds slept so far.
\<close>

record limiter_state =
  did_show_msg :: bool
  stdout :: "string list"
  slept :: nat

text \<open>The state right after the module's top-level code has run (line 2).\<close>

definition limiter_init :: limiter_state where
  "limiter_init = \<lparr>did_show_msg = False, stdout = [], slept = 0\<rparr>"

text \<open>The two lines of lines 8 and 9; \<open>ESC\<close> is the character written \<open>\033\<close>.\<close>

definition ESC :: char where
  "ESC = CHR 0x1B"

definition note_line :: string where
  "note_line =
     [ESC] @ ''[33mNote:'' @ [ESC] @ ''[0m Pipeline(s) have been configured with '' @
     [ESC] @ ''[36m'' @ [CHR 0x22] @ ''examples'' @ [CHR 0x5C] @ ''iteration_rate_limiter.py'' @
     [CHR 0x22] @ [ESC] @ ''[0m to limit the iteration rate.''"

definition removal_line :: string where
  "removal_line =
     ''To remove this limiter, locate pipeline configuration(s) containing the rate limiter in the '' @
     [ESC] @ ''[1mscripts'' @ [ESC] @ ''[0m property and remove its script path.''"

definition print :: "string \<Rightarrow> limiter_state \<Rightarrow> limiter_state" where
  "print line s = s\<lparr>stdout := stdout s @ [line]\<rparr>"

definition sleep :: "nat \<Rightarrow> limiter_state \<Rightarrow> limiter_state" where
  "sleep n s = s\<lparr>slept := slept s + n\<rparr>"

text \<open>
  \<open>step\<close> (lines 4 to 12). The argument is any guest value, so its type is a parameter.
\<close>

definition step :: "'a \<Rightarrow> limiter_state \<Rightarrow> 'a \<times> limiter_state" where
  "step input_data s =
     (let s1 = (if \<not> did_show_msg s
                then (print removal_line (print note_line s))\<lparr>did_show_msg := True\<rparr>
                else s);
          s2 = sleep 1 s1
      in (input_data, s2))"

text \<open>Calling \<open>step\<close> once per element of a list of inputs, in order.\<close>

fun run_steps :: "'a list \<Rightarrow> limiter_state \<Rightarrow> limiter_state" where
  "run_steps [] s = s"
| "run_steps (x # xs) s = run_steps xs (snd (step x s))"

section \<open>The test script (Python/PythonGILTestScripts/test\_functions.py)\<close>

text \<open>
  Two operations of the guest runtime are left open, as parameters: the sum of two
  numbers of which one is a float (a conversion and an IEEE addition, which may raise),
  and the text that an f-string inserts for a value, \<open>format(x, '')\<close>.
\<close>

record runtime =
  float_add :: "pyval \<Rightarrow> pyval \<Rightarrow> pyexc + pyval"
  format_value :: "pyval \<Rightarrow> string"

fun type_name :: "pyval \<Rightarrow> string" where
  "type_name PNone = ''NoneType''"
| "type_name (PBool b) = ''bool''"
| "type_name (PInt i) = ''int''"
| "type_name (PFloat w) = ''float''"
| "type_name (PStr s) = ''str''"
| "type_name (PList xs) = ''list''"

fun int_of :: "pyval \<Rightarrow> int option" where
  "int_of (PBool b) = Some (if b then 1 else 0)"
| "int_of (PInt i) = Some i"
| "int_of _ = None"

definition quoted :: "char \<Rightarrow> string \<Rightarrow> string" where
  "quoted q s = [q] @ s @ [q]"

text \<open>
  \<open>a + b\<close>: strings and lists concatenate with their own kind, \<open>bool\<close> and \<open>int\<close> add as
  integers, and every other pair of operands raises \<open>TypeError\<close>.
\<close>

definition py_add :: "runtime \<Rightarrow> pyval \<Rightarrow> pyval \<Rightarrow> pyexc + pyval" where
  "py_add rt a b =
     (case a of
        PStr s \<Rightarrow>
          (case b of
             PStr t \<Rightarrow> Inr (PStr (s @ t))
           | _ \<Rightarrow> Inl (PyExc ''TypeError''
                 (''can only concatenate str (not '' @ quoted (CHR 0x22) (type_name b) @ '') to str'')))
      | PList xs \<Rightarrow>
          (case b of
             PList ys \<Rightarrow> Inr (PList (xs @ ys))
           | _ \<Rightarrow> Inl (PyExc ''TypeError''
                 (''can only concatenate list (not '' @ quoted (CHR 0x22) (type_name b) @ '') to list'')))
      | _ \<Rightarrow>
          (case (int_of a, int_of b) of
             (Some i, Some j) \<Rightarrow> Inr (PInt (i + j))
           | _ \<Rightarrow>
               if num_of a \<noteq> None \<and> num_of b \<noteq> None then float_add rt a b
               else Inl (PyExc ''TypeError''
                 (''unsupported operand type(s) for +: '' @ quoted (CHR 0x27) (type_name a) @
                  '' and '' @ quoted (CHR 0x27) (type_name b)))))"

text \<open>
  The six functions of the script, each returning its value (\<open>Inr\<close>) or the exception it
  raises (\<open>Inl\<close>), and the three names bound to values that are no functions.
\<close>

definition no_params :: "pyexc + pyval" where
  "no_params = Inr (PStr ''no_params_called'')"

definition one_param :: "runtime \<Rightarrow> pyval \<Rightarrow> pyexc + pyval" where
  "one_param rt x = Inr (PStr (''received: '' @ format_value rt x))"

definition two_params :: "runtime \<Rightarrow> pyval \<Rightarrow> pyval \<Rightarrow> pyexc + pyval" where
  "two_params rt a b = py_add rt a b"

definition three_params :: "runtime \<Rightarrow> pyval \<Rightarrow> pyval \<Rightarrow> pyval \<Rightarrow> pyexc + pyval" where
  "three_params rt a b c =
     (case py_add rt a b of Inl e \<Rightarrow> Inl e | Inr ab \<Rightarrow> py_add rt ab c)"

definition returns_none :: "pyexc + pyval" where
  "returns_none = Inr PNone"

definition raises_error :: "pyexc + pyval" where
  "raises_error = Inl (PyExc ''ValueError'' ''This is a test error'')"

definition not_callable :: pyval where
  "not_callable = PStr ''I am a string''"

definition also_not_callable :: pyval where
  "also_not_callable = PInt 42"

definition list_not_callable :: pyval where
  "list_not_callable = PList [PInt 1, PInt 2, PInt 3]"

text \<open>
  A function object, by the number of positional parameters its \<open>def\<close> declares (none of
  the scripts declares a default). Its body runs on the module's state \<open>'g\<close> and returns
  the state it leaves. \<open>stateless\<close> is a body that does not touch the module's state.
\<close>

datatype 'g pyfunction =
    Fun0 "'g \<Rightarrow> (pyexc + pyval) \<times> 'g"
  | Fun1 "pyval \<Rightarrow> 'g \<Rightarrow> (pyexc + pyval) \<times> 'g"
  | Fun2 "pyval \<Rightarrow> pyval \<Rightarrow> 'g \<Rightarrow> (pyexc + pyval) \<times> 'g"
  | Fun3 "pyval \<Rightarrow> pyval \<Rightarrow> pyval \<Rightarrow> 'g \<Rightarrow> (pyexc + pyval) \<times> 'g"

datatype 'g attribute = Function "'g pyfunction" | Data pyval

definition stateless :: "pyexc + pyval \<Rightarrow> 'g \<Rightarrow> (pyexc + pyval) \<times> 'g" where
  "stateless r g = (r, g)"

text \<open>
  The names the script binds, in the order in which it binds them (the attributes that
  every module has, such as \<open>__name__\<close>, are left out).
\<close>

definition test_functions :: "runtime \<Rightarrow> (string \<times> 'g attribute) list" where
  "test_functions rt =
     [(''no_params'', Function (Fun0 (stateless no_params))),
      (''one_param'', Function (Fun1 (\<lambda>x. stateless (one_param rt x)))),
      (''two_params'', Function (Fun2 (\<lambda>a b. stateless (two_params rt a b)))),
      (''three_params'', Function (Fun3 (\<lambda>a b c. stateless (three_params rt a b c)))),
      (''returns_none'', Function (Fun0 (stateless returns_none))),
      (''raises_error'', Function (Fun0 (stateless raises_error))),
      (''not_callable'', Data not_callable),
      (''also_not_callable'', Data also_not_callable),
      (''list_not_callable'', Data list_not_callable)]"

section \<open>The bridge: Call Gate, resolver and invoker\<close>

text \<open>
  Modelled from the spec: the state of the bridge. The host code of the bridge (the
  Call Gate and the Function Resolver and Invoker of DPorch.Runtime) is not among the
  sources at hand; what follows is written from sections 4.2, 4.3 and 7 of the
  specification. The state holds the gate (held or free) and the state of the guest
  module; \<open>invocations\<close> counts the guest bodies that were run.
\<close>

record 'g bridge =
  gate_held :: bool
  guest :: 'g
  invocations :: nat

text \<open>
  Modelled from the spec: the bridge before its first call, the gate free (section 4.2)
  and the guest module as its top-level code left it (section 4.4).
\<close>

definition bridge_init :: "'g \<Rightarrow> 'g bridge" where
  "bridge_init g = \<lparr>gate_held = False, guest = g, invocations = 0\<rparr>"

text \<open>
  Modelled from the spec: the errors of resolution and invocation (section 4.3), a
  guest failure carrying the kind and the message of the guest's exception.
\<close>

datatype bridge_error =
    NotFoundError
  | NotCallableError
  | ArityError
  | GuestRaisedError string string

text \<open>
  Modelled from the spec: \<open>acquire\<close> and \<open>release\<close> of the Call Gate (section 4.2).
  \<open>acquire\<close> blocks until the gate is free; in this sequential model a caller that finds
  the gate held never returns, which is \<open>None\<close>.
\<close>

definition acquire :: "'g bridge \<Rightarrow> 'g bridge option" where
  "acquire s = (if gate_held s then None else Some (s\<lparr>gate_held := True\<rparr>))"

text \<open>
  Modelled from the spec: \<open>release\<close> consumes the token and frees the gate (section 4.2).
\<close>

definition release :: "'g bridge \<Rightarrow> 'g bridge" where
  "release s = s\<lparr>gate_held := False\<rparr>"

text \<open>
  Modelled from the spec: \<open>resolve\<close> (section 4.3). The name is looked up in the module's
  namespace under the gate; an absent name is \<open>NotFoundError\<close>, a name bound to a value
  that is no function is \<open>NotCallableError\<close>, decided by looking at the kind of the
  attribute, and a function is returned as the callable reference.
\<close>

definition resolve ::
  "(string \<times> 'g attribute) list \<Rightarrow> string \<Rightarrow> 'g bridge \<Rightarrow>
     ((bridge_error + 'g pyfunction) \<times> 'g bridge) option" where
  "resolve ns name s =
     (case acquire s of
        None \<Rightarrow> None
      | Some s1 \<Rightarrow>
          Some ((case map_of ns name of
                   None \<Rightarrow> Inl NotFoundError
                 | Some (Data v) \<Rightarrow> Inl NotCallableError
                 | Some (Function f) \<Rightarrow> Inr f),
                release s1))"

text \<open>
  Modelled from the spec: the check of the declared parameter count against the number
  of arguments supplied (section 4.3); \<open>None\<close> when they differ.
\<close>

fun apply_function ::
  "'g pyfunction \<Rightarrow> pyval list \<Rightarrow> ('g \<Rightarrow> (pyexc + pyval) \<times> 'g) option" where
  "apply_function (Fun0 f) [] = Some f"
| "apply_function (Fun1 f) [a] = Some (f a)"
| "apply_function (Fun2 f) [a, b] = Some (f a b)"
| "apply_function (Fun3 f) [a, b, c] = Some (f a b c)"
| "apply_function _ _ = None"

text \<open>
  Modelled from the spec: \<open>invoke\<close> (section 4.3). The gate is acquired, a mismatch of
  the argument count is \<open>ArityError\<close> without running the body, an exception of the body
  becomes \<open>GuestRaisedError\<close> with its kind and message, a returned value (\<open>None\<close>
  included) is the result, and the gate is released on each of these paths.
\<close>

definition invoke ::
  "'g pyfunction \<Rightarrow> pyval list \<Rightarrow> 'g bridge \<Rightarrow> ((bridge_error + pyval) \<times> 'g bridge) option" where
  "invoke f args s =
     (case acquire s of
        None \<Rightarrow> None
      | Some s1 \<Rightarrow>
          (case apply_function f args of
             None \<Rightarrow> Some (Inl ArityError, release s1)
           | Some call \<Rightarrow>
               (case call (guest s1) of
                  (Inl e, g) \<Rightarrow>
                    Some (Inl (GuestRaisedError (kind e) (message e)),
                          release (s1\<lparr>guest := g, invocations := Suc (invocations s1)\<rparr>))
                | (Inr v, g) \<Rightarrow>
                    Some (Inr v,
                          release (s1\<lparr>guest := g, invocations := Suc (invocations s1)\<rparr>)))))"

section \<open>Properties of the rate limiter\<close>

lemma step_flag: "did_show_msg (snd (step x s))"
  by (simp add: step_def Let_def sleep_def print_def)

lemma step_stdout_shown: "did_show_msg s \<Longrightarrow> stdout (snd (step x s)) = stdout s"
  by (simp add: step_def Let_def sleep_def)

lemma step_stdout_first:
  "\<not> did_show_msg s \<Longrightarrow> stdout (snd (step x s)) = stdout s @ [note_line, removal_line]"
  by (simp add: step_def Let_def sleep_def print_def)

lemma run_steps_shown:
  "did_show_msg s \<Longrightarrow>
     did_show_msg (run_steps xs s) \<and> stdout (run_steps xs s) = stdout s"
proof (induction xs arbitrary: s)
  case Nil
  then show ?case by simp
next
  case (Cons x xs)
  have "did_show_msg (snd (step x s))" by (rule step_flag)
  from Cons.IH [OF this] step_stdout_shown [OF Cons.prems, of x]
  show ?case by simp
qed

text \<open>
  C9: for every input value and every module state (whatever the flag is), \<open>step\<close>
  returns its argument unchanged.
\<close>

theorem step_returns_input: "fst (step input_data s) = input_data"
  by (simp add: step_def Let_def)

text \<open>
  C10: the flag starts False; after any call of \<open>step\<close> it is True, so in particular a
  call made when it is True leaves it True; and over any sequence of calls made from
  the freshly loaded module the two message lines are written exactly once (never
  when there is no call), so the message branch is taken at most once.
\<close>

theorem did_show_msg_one_shot:
  "\<not> did_show_msg limiter_init \<and>
   did_show_msg (snd (step x s)) \<and>
   did_show_msg (run_steps (y # ys) limiter_init) \<and>
   stdout (run_steps [] limiter_init) = [] \<and>
   stdout (run_steps (y # ys) limiter_init) = [note_line, removal_line]"
proof -
  have init: "\<not> did_show_msg limiter_init" "stdout limiter_init = []"
    by (simp_all add: limiter_init_def)
  have first: "did_show_msg (snd (step y limiter_init))" by (rule step_flag)
  have out: "stdout (snd (step y limiter_init)) = [note_line, removal_line]"
    using step_stdout_first [OF init(1), of y] init(2) by simp
  from run_steps_shown [OF first, of ys] out init step_flag [of x s]
  show ?thesis by simp
qed

section \<open>Properties of the pickle format on scalar values\<close>














section \<open>Properties of the object codec\<close>

lemma dict_set_keys:
  "map fst (dict_set d k v) = (if k \<in> set (map fst d) then map fst d else map fst d @ [k])"
  by (induction d) force+

lemma deserialize_loop_keys:
  "deserialize_loop loads items result = Inr r \<Longrightarrow>
   distinct (map fst items) \<Longrightarrow>
   set (map fst items) \<inter> set (map fst result) = {} \<Longrightarrow>
   map fst r = map fst result @ map fst items"
proof (induction items arbitrary: result)
  case Nil
  then show ?case by simp
next
  case (Cons item items)
  obtain source data where item: "item = (source, data)" by (cases item)
  from Cons.prems(1) item obtain v where
    v: "loads data = Inr v" and
    rest: "deserialize_loop loads items (dict_set result source v) = Inr r"
    by (auto split: sum.splits)
  from Cons.prems(3) item have fresh: "source \<notin> set (map fst result)" by auto
  then have keys: "map fst (dict_set result source v) = map fst result @ [source]"
    by (simp add: dict_set_keys)
  from Cons.prems(2) item have d: "distinct (map fst items)" and n: "source \<notin> set (map fst items)"
    by auto
  from Cons.prems(3) n have "set (map fst items) \<inter> set (map fst (dict_set result source v)) = {}"
    unfolding keys by auto
  from Cons.IH [OF rest d this] keys item show ?case by simp
qed

lemma deserialize_loop_abort:
  "list_all (\<lambda>(k, d). \<exists>v. loads d = Inr v) pre \<Longrightarrow> loads data = Inl e \<Longrightarrow>
   deserialize_loop loads (pre @ (source, data) # post) result = Inl e"
proof (induction pre arbitrary: result)
  case Nil
  then show ?case by simp
next
  case (Cons item pre)
  obtain k d where item: "item = (k, d)" by (cases item)
  from Cons.prems(1) item obtain v where v: "loads d = Inr v" by auto
  from Cons.prems(1) have "list_all (\<lambda>(k, d). \<exists>v. loads d = Inr v) pre" by simp
  from Cons.IH [OF this Cons.prems(2)] v item show ?case by simp
qed

text \<open>
  C3: when \<open>deserialize\<close> succeeds on a dictionary, the result is a dictionary with the
  keys of the input, each once and in the same order: no channel is dropped, none is
  duplicated and none is added.
\<close>

theorem deserialize_keys:
  assumes "is_dict source_msg_map" and "deserialize loads source_msg_map = Inr result"
  shows "map fst result = map fst source_msg_map \<and> is_dict result"
proof -
  from assms(2) have loop: "deserialize_loop loads source_msg_map [] = Inr result"
    by (simp add: deserialize_def)
  from assms(1) have d: "distinct (map fst source_msg_map)"
    by (simp add: is_dict_def)
  have "map fst result = map fst source_msg_map"
    using deserialize_loop_keys [OF loop d] by simp
  with d show ?thesis by (simp add: is_dict_def)
qed

theorem deserialize_keys_witness:
  "is_dict [(''a'', [op_PROTO, 4, op_BININT1, 3, op_STOP]),
            (''b'', [op_PROTO, 4, op_BININT1, 4, op_STOP])] \<and>
   deserialize pickle_loads
     [(''a'', [op_PROTO, 4, op_BININT1, 3, op_STOP]),
      (''b'', [op_PROTO, 4, op_BININT1, 4, op_STOP])] =
     Inr [(''a'', PInt 3), (''b'', PInt 4)] \<and>
   map fst [(''a'', PInt 3), (''b'', PInt 4)] = [''a'', ''b''] \<and>
   is_dict [(''a'', PInt 3), (''b'', PInt 4)]"
proof -
  let ?m = "[(''a'', [op_PROTO, 4, op_BININT1, 3, op_STOP]),
             (''b'', [op_PROTO, 4, op_BININT1, 4, op_STOP])]"
  have d: "is_dict ?m" by (simp add: is_dict_def)
  have r: "deserialize pickle_loads ?m = Inr [(''a'', PInt 3), (''b'', PInt 4)]"
    by (simp add: deserialize_def pickle_loads_def)
  from deserialize_keys [OF d r] d r show ?thesis by simp
qed

text \<open>
  C1, as the code has it: \<open>deserialize\<close> does not fail per channel. The first channel in
  iteration order whose payload \<open>pickle.loads\<close> rejects ends the whole call with that
  channel's exception: no mapping is returned, whatever the channels before it decoded
  to and whatever the channels after it hold.
\<close>

theorem deserialize_aborts:
  assumes "list_all (\<lambda>(k, d). \<exists>v. loads d = Inr v) pre" and "loads data = Inl e"
  shows "deserialize loads (pre @ (source, data) # post) = Inl e"
  using assms by (simp add: deserialize_def deserialize_loop_abort)

theorem deserialize_aborts_witness:
  "pickle_loads [op_PROTO, 4, op_BININT1, 3, op_STOP] = Inr (PInt 3) \<and>
   pickle_loads [] = Inl EOFError \<and>
   deserialize pickle_loads
     [(''a'', [op_PROTO, 4, op_BININT1, 3, op_STOP]),
      (''b'', []),
      (''c'', [op_PROTO, 4, op_BININT1, 4, op_STOP])] = Inl EOFError"
proof -
  have good: "pickle_loads [op_PROTO, 4, op_BININT1, 3, op_STOP] = Inr (PInt 3)"
    by (simp add: pickle_loads_def)
  then have pre:
    "list_all (\<lambda>(k, d). \<exists>v. pickle_loads d = Inr v) [(''a'', [op_PROTO, 4, op_BININT1, 3, op_STOP])]"
    by simp
  have bad: "pickle_loads [] = Inl EOFError"
    by (simp add: pickle_loads_def)
  from deserialize_aborts [OF pre bad, of "''b''" "[(''c'', [op_PROTO, 4, op_BININT1, 4, op_STOP])]"]
    good bad
  show ?thesis by simp
qed

text \<open>
  The claim C1 as the specification states it fails: with an empty payload on channel
  \<open>a\<close> and a well-formed one on channel \<open>b\<close>, the call ends with \<open>EOFError\<close>; there is no
  result mapping, hence no entry for \<open>b\<close> and no entry carrying the error of \<open>a\<close>.
\<close>

theorem deserialize_per_channel_counterexample:
  "pickle_loads [op_PROTO, 4, op_BININT1, 3, op_STOP] = Inr (PInt 3) \<and>
   deserialize pickle_loads
     [(''a'', []), (''b'', [op_PROTO, 4, op_BININT1, 3, op_STOP])] = Inl EOFError"
  by (simp add: deserialize_def pickle_loads_def)





section \<open>Properties of the test script and of the bridge\<close>

lemma invoke_returns: "\<not> gate_held s \<Longrightarrow> \<exists>out. invoke f args s = Some out"
  by (simp add: invoke_def acquire_def split: option.splits prod.splits sum.splits)

text \<open>
  C4: \<open>two_params\<close> called with two integers returns their sum, whatever the integers.
  In the scenario the payloads of the channels \<open>a\<close> and \<open>b\<close> decode to the dictionary
  \<open>{a: 3, b: 4}\<close>, whose two values are 3 and 4, and \<open>two_params\<close> called with them
  returns 7.
\<close>

theorem two_params_sum:
  "two_params rt (PInt a) (PInt b) = Inr (PInt (a + b)) \<and>
   deserialize pickle_loads
     [(''a'', [op_PROTO, 4, op_BININT1, 3, op_STOP]),
      (''b'', [op_PROTO, 4, op_BININT1, 4, op_STOP])] =
     Inr [(''a'', PInt 3), (''b'', PInt 4)] \<and>
   map_of [(''a'', PInt 3), (''b'', PInt 4)] ''a'' = Some (PInt 3) \<and>
   map_of [(''a'', PInt 3), (''b'', PInt 4)] ''b'' = Some (PInt 4) \<and>
   two_params rt (PInt 3) (PInt 4) = Inr (PInt 7)"
  by (simp add: deserialize_def pickle_loads_def two_params_def py_add_def)

text \<open>
  C5: when the gate is free and the body of the callable raises, \<open>invoke\<close> returns (the
  host goes on) with \<open>GuestRaisedError\<close> carrying the kind and the message of the guest's
  exception as they are; the gate is free afterwards and any invocation that follows
  returns. For \<open>raises_error\<close> the error is \<open>ValueError\<close> with the message
  \<open>This is a test error\<close>, and \<open>no_params\<close> invoked next succeeds.
\<close>

theorem invoke_guest_raises:
  assumes "\<not> gate_held s" and "apply_function f args = Some call"
    and "call (guest s) = (Inl e, g)"
  shows "invoke f args s =
           Some (Inl (GuestRaisedError (kind e) (message e)),
                 s\<lparr>guest := g, invocations := Suc (invocations s)\<rparr>) \<and>
         \<not> gate_held (s\<lparr>guest := g, invocations := Suc (invocations s)\<rparr>) \<and>
         (\<forall>f' args'. \<exists>out.
            invoke f' args' (s\<lparr>guest := g, invocations := Suc (invocations s)\<rparr>) = Some out)"
proof -
  let ?s' = "s\<lparr>guest := g, invocations := Suc (invocations s)\<rparr>"
  from assms(1) have free: "\<not> gate_held ?s'" by simp
  from assms have "invoke f args s =
      Some (Inl (GuestRaisedError (kind e) (message e)), ?s')"
    by (cases s) (simp add: invoke_def acquire_def release_def)
  with free invoke_returns [OF free] show ?thesis by blast
qed

theorem invoke_guest_raises_witness:
  "invoke (Fun0 (stateless raises_error)) [] (bridge_init ()) =
     Some (Inl (GuestRaisedError ''ValueError'' ''This is a test error''),
           \<lparr>gate_held = False, guest = (), invocations = 1\<rparr>) \<and>
   invoke (Fun0 (stateless no_params)) [] \<lparr>gate_held = False, guest = (), invocations = 1\<rparr> =
     Some (Inr (PStr ''no_params_called''), \<lparr>gate_held = False, guest = (), invocations = 2\<rparr>)"
proof -
  have free: "\<not> gate_held (bridge_init ())" by (simp add: bridge_init_def)
  have app: "apply_function (Fun0 (stateless raises_error)) [] = Some (stateless raises_error)"
    by simp
  have call: "stateless raises_error (guest (bridge_init ())) =
      (Inl (PyExc ''ValueError'' ''This is a test error''), ())"
    by (simp add: stateless_def raises_error_def)
  from invoke_guest_raises [OF free app call]
  have "invoke (Fun0 (stateless raises_error)) [] (bridge_init ()) =
     Some (Inl (GuestRaisedError ''ValueError'' ''This is a test error''),
           \<lparr>gate_held = False, guest = (), invocations = 1\<rparr>)"
    by (simp add: bridge_init_def)
  moreover have "invoke (Fun0 (stateless no_params)) [] \<lparr>gate_held = False, guest = (), invocations = 1\<rparr> =
     Some (Inr (PStr ''no_params_called''), \<lparr>gate_held = False, guest = (), invocations = 2\<rparr>)"
    by (simp add: invoke_def acquire_def release_def stateless_def no_params_def)
  ultimately show ?thesis by simp
qed

text \<open>
  C6: when the gate is free and the name is bound to a value that is no function,
  \<open>resolve\<close> returns \<open>NotCallableError\<close> and leaves the state of the bridge as it was: the
  guest's state is untouched and no body was run. So it is for the string
  \<open>not_callable\<close>, the number \<open>also_not_callable\<close> and the list \<open>list_not_callable\<close>.
\<close>

theorem resolve_not_callable:
  assumes "\<not> gate_held s" and "map_of ns name = Some (Data v)"
  shows "resolve ns name s = Some (Inl NotCallableError, s)"
  using assms by (cases s) (simp add: resolve_def acquire_def release_def)

theorem resolve_not_callable_witness:
  "\<forall>rt.
     resolve (test_functions rt) ''not_callable'' (bridge_init ()) =
       Some (Inl NotCallableError, bridge_init ()) \<and>
     resolve (test_functions rt) ''also_not_callable'' (bridge_init ()) =
       Some (Inl NotCallableError, bridge_init ()) \<and>
     resolve (test_functions rt) ''list_not_callable'' (bridge_init ()) =
       Some (Inl NotCallableError, bridge_init ())"
proof
  fix rt
  have free: "\<not> gate_held (bridge_init ())" by (simp add: bridge_init_def)
  have a: "map_of (test_functions rt :: (string \<times> unit attribute) list) ''not_callable'' = Some (Data not_callable)"
    by (simp add: test_functions_def)
  have b: "map_of (test_functions rt :: (string \<times> unit attribute) list) ''also_not_callable'' = Some (Data also_not_callable)"
    by (simp add: test_functions_def)
  have c: "map_of (test_functions rt :: (string \<times> unit attribute) list) ''list_not_callable'' = Some (Data list_not_callable)"
    by (simp add: test_functions_def)
  from resolve_not_callable [OF free a] resolve_not_callable [OF free b]
    resolve_not_callable [OF free c]
  show "resolve (test_functions rt) ''not_callable'' (bridge_init ()) =
       Some (Inl NotCallableError, bridge_init ()) \<and>
     resolve (test_functions rt) ''also_not_callable'' (bridge_init ()) =
       Some (Inl NotCallableError, bridge_init ()) \<and>
     resolve (test_functions rt) ''list_not_callable'' (bridge_init ()) =
       Some (Inl NotCallableError, bridge_init ())"
    by simp
qed

text \<open>
  C7: when the gate is free, a callable that declares no parameter and whose body
  returns a value is invoked with no argument successfully, the result being that
  value; with one argument or more the result is \<open>ArityError\<close>, the body is not run and
  the state of the bridge is as it was. \<open>no_params\<close> returns \<open>no_params_called\<close>.
\<close>

theorem invoke_zero_params:
  assumes "\<not> gate_held s" and "body (guest s) = (Inr v, g)"
  shows "invoke (Fun0 body) [] s =
           Some (Inr v, s\<lparr>guest := g, invocations := Suc (invocations s)\<rparr>) \<and>
         invoke (Fun0 body) (a # args) s = Some (Inl ArityError, s)"
  using assms by (cases s) (simp add: invoke_def acquire_def release_def)

theorem invoke_zero_params_witness:
  "invoke (Fun0 (stateless no_params)) [] (bridge_init ()) =
     Some (Inr (PStr ''no_params_called''), \<lparr>gate_held = False, guest = (), invocations = 1\<rparr>) \<and>
   invoke (Fun0 (stateless no_params)) [PInt 1] (bridge_init ()) =
     Some (Inl ArityError, bridge_init ()) \<and>
   invoke (Fun0 (stateless no_params)) [PInt 1, PStr ''x''] (bridge_init ()) =
     Some (Inl ArityError, bridge_init ())"
proof -
  have free: "\<not> gate_held (bridge_init ())" by (simp add: bridge_init_def)
  have ret: "stateless no_params (guest (bridge_init ())) = (Inr (PStr ''no_params_called''), ())"
    by (simp add: stateless_def no_params_def)
  from invoke_zero_params
      [where body = "stateless no_params" and a = "PInt 1" and args = "[]", OF free ret]
    invoke_zero_params
      [where body = "stateless no_params" and a = "PInt 1" and args = "[PStr ''x'']",
       OF free ret]
  show ?thesis by (simp add: bridge_init_def)
qed

text \<open>
  C8: when the gate is free and the body of the callable returns \<open>None\<close>, \<open>invoke\<close>
  returns \<open>None\<close> as a successful result, not as an error. So it is for \<open>returns_none\<close>.
\<close>

theorem invoke_returns_none:
  assumes "\<not> gate_held s" and "apply_function f args = Some call"
    and "call (guest s) = (Inr PNone, g)"
  shows "invoke f args s = Some (Inr PNone, s\<lparr>guest := g, invocations := Suc (invocations s)\<rparr>)"
  using assms by (cases s) (simp add: invoke_def acquire_def release_def)

theorem invoke_returns_none_witness:
  "invoke (Fun0 (stateless returns_none)) [] (bridge_init ()) =
     Some (Inr PNone, \<lparr>gate_held = False, guest = (), invocations = 1\<rparr>)"
proof -
  have free: "\<not> gate_held (bridge_init ())" by (simp add: bridge_init_def)
  have app: "apply_function (Fun0 (stateless returns_none)) [] = Some (stateless returns_none)"
    by simp
  have call: "stateless returns_none (guest (bridge_init ())) = (Inr PNone, ())"
    by (simp add: stateless_def returns_none_def)
  from invoke_returns_none [OF free app call] show ?thesis by (simp add: bridge_init_def)
qed

end
